theory Spec2Isabelle
  imports Complex_Main "HOL-Library.AList"
begin

section \<open>Data model of src/main.py\<close>

text \<open>
  A \<open>datetime\<close> is read from the wall clock by \<open>datetime.now()\<close>. Only equality and
  order of the readings matter here, so a reading is an integer (a count of microseconds).
  The clock is an input of the model: every operation that calls \<open>datetime.now()\<close>
  takes the reading it gets.
\<close>

type_synonym datetime = int

text \<open>
  A Python float, as far as the schema looks at it: a finite value, an infinity or NaN.
  Every comparison with NaN is false.
\<close>

datatype pyfloat = Finite real | PosInf | NegInf | NaN

fun float_gt :: "pyfloat \<Rightarrow> real \<Rightarrow> bool" where
  "float_gt (Finite r) b = (b < r)"
| "float_gt PosInf b = True"
| "float_gt NegInf b = False"
| "float_gt NaN b = False"

fun float_le :: "pyfloat \<Rightarrow> real \<Rightarrow> bool" where
  "float_le (Finite r) b = (r \<le> b)"
| "float_le PosInf b = False"
| "float_le NegInf b = True"
| "float_le NaN b = False"

text \<open>
  \<open>class ItemBase(BaseModel)\<close>; \<open>ItemCreate\<close> and \<open>ItemUpdate\<close> add nothing to it.
  \<open>class Item(ItemBase)\<close> adds the fields the store generates. The field \<open>id\<close> is
  \<open>item_id\<close> here, \<open>id\<close> being the identity function of HOL.
\<close>

record ItemBase =
  name :: string
  description :: "string option"
  price :: pyfloat
  quantity :: int

type_synonym ItemCreate = ItemBase
type_synonym ItemUpdate = ItemBase

record Item = ItemBase +
  item_id :: int
  created_at :: datetime
  updated_at :: datetime

text \<open>
  The \<open>Field\<close> constraints of \<open>ItemBase\<close>: \<open>min_length=1, max_length=100\<close> on
  \<open>name\<close>, \<open>max_length=500\<close> on \<open>description\<close> when it is not \<open>None\<close>, \<open>gt=0\<close> on
  \<open>price\<close>, \<open>ge=0\<close> on \<open>quantity\<close>.
\<close>

definition validate_ItemBase :: "ItemBase \<Rightarrow> bool" where
  "validate_ItemBase item \<longleftrightarrow>
     1 \<le> length (name item) \<and> length (name item) \<le> 100
     \<and> (case description item of None \<Rightarrow> True | Some d \<Rightarrow> length d \<le> 500)
     \<and> float_gt (price item) 0
     \<and> 0 \<le> quantity item"

text \<open>
  The two globals: \<open>data_store\<close>, a dict, and \<open>next_id\<close>. A Python dict keeps its keys in
  insertion order, assigning to a key that is present keeps its place, and \<open>del\<close>
  removes it: an association list with \<open>AList.update\<close> and \<open>AList.delete\<close>.
\<close>

record store =
  data_store :: "(int \<times> Item) list"
  next_id :: int

text \<open>\<open>HTTPException(status_code, detail)\<close>, and the rejection of a body by the schema.\<close>

datatype error = HTTPException nat string | RequestValidationError

definition HTTP_404_NOT_FOUND :: nat where
  "HTTP_404_NOT_FOUND = 404"

section \<open>Formatting an id\<close>

text \<open>\<open>f"{item_id}"\<close> of a Python int: decimal digits, with a minus sign when negative.\<close>

definition digit_char :: "nat \<Rightarrow> char" where
  "digit_char d = ''0123456789'' ! d"

function str_nat :: "nat \<Rightarrow> string" where
  "str_nat n = (if n < 10 then [digit_char n] else str_nat (n div 10) @ [digit_char (n mod 10)])"
  by pat_completeness auto
termination
  by (relation "measure (\<lambda>n. n)") auto

definition str_int :: "int \<Rightarrow> string" where
  "str_int i = (if i < 0 then CHR ''-'' # str_nat (nat (- i)) else str_nat (nat i))"

definition not_found :: "int \<Rightarrow> error" where
  "not_found iid =
     HTTPException HTTP_404_NOT_FOUND (''Item with id '' @ str_int iid @ '' not found'')"

section \<open>Start-up\<close>

definition demo_items :: "ItemBase list" where
  "demo_items =
    [\<lparr>name = ''Wireless Mouse'',
      description = Some ''Ergonomic wireless mouse with adjustable DPI'',
      price = Finite (2999 / 100), quantity = 150\<rparr>,
     \<lparr>name = ''Mechanical Keyboard'',
      description = Some ''RGB mechanical keyboard with Cherry MX switches'',
      price = Finite (14999 / 100), quantity = 75\<rparr>,
     \<lparr>name = ''USB-C Hub'',
      description = Some ''7-in-1 USB-C hub with HDMI, USB 3.0, and SD card reader'',
      price = Finite (4999 / 100), quantity = 200\<rparr>,
     \<lparr>name = ''Monitor Stand'',
      description = Some ''Adjustable monitor stand with cable management'',
      price = Finite (7999 / 100), quantity = 50\<rparr>,
     \<lparr>name = ''Webcam HD'',
      description = Some ''1080p HD webcam with built-in microphone'',
      price = Finite (8999 / 100), quantity = 120\<rparr>]"

text \<open>
  The loop of \<open>initialize_demo_data\<close>. Each round reads the clock once; \<open>clock k\<close> is the
  reading of round \<open>k\<close>.
\<close>

fun load_items :: "(nat \<Rightarrow> datetime) \<Rightarrow> nat \<Rightarrow> ItemBase list \<Rightarrow> store \<Rightarrow> store" where
  "load_items clock k [] st = st"
| "load_items clock k (item_data # rest) st =
     (let now = clock k in
      load_items clock (Suc k) rest
        \<lparr>data_store =
           AList.update (next_id st)
             \<lparr>name = name item_data, description = description item_data,
              price = price item_data, quantity = quantity item_data,
              item_id = next_id st, created_at = now, updated_at = now\<rparr>
             (data_store st),
         next_id = next_id st + 1\<rparr>)"

text \<open>The module sets \<open>data_store = {}\<close>, \<open>next_id = 1\<close> and calls the initialiser.\<close>

definition initialize_demo_data :: "(nat \<Rightarrow> datetime) \<Rightarrow> store" where
  "initialize_demo_data clock = load_items clock 0 demo_items \<lparr>data_store = [], next_id = 1\<rparr>"

section \<open>The endpoint functions\<close>

text \<open>
  Each function takes the globals and returns them with its result. A \<open>raise\<close> is the
  value \<open>Inl\<close>; the globals returned with it are what they were when it was raised.
\<close>

definition get_all_items :: "store \<Rightarrow> store \<times> Item list" where
  "get_all_items st = (st, map snd (data_store st))"

definition get_item_by_id :: "store \<Rightarrow> int \<Rightarrow> store \<times> (error + Item)" where
  "get_item_by_id st iid =
     (case map_of (data_store st) iid of
        None \<Rightarrow> (st, Inl (not_found iid))
      | Some it \<Rightarrow> (st, Inr it))"

definition create_item :: "store \<Rightarrow> datetime \<Rightarrow> ItemCreate \<Rightarrow> store \<times> Item" where
  "create_item st now item =
     (let new_item = \<lparr>name = name item, description = description item,
                      price = price item, quantity = quantity item,
                      item_id = next_id st, created_at = now, updated_at = now\<rparr>
      in (\<lparr>data_store = AList.update (next_id st) new_item (data_store st),
           next_id = next_id st + 1\<rparr>, new_item))"

definition update_item :: "store \<Rightarrow> datetime \<Rightarrow> int \<Rightarrow> ItemUpdate \<Rightarrow> store \<times> (error + Item)" where
  "update_item st now iid item =
     (case map_of (data_store st) iid of
        None \<Rightarrow> (st, Inl (not_found iid))
      | Some existing_item \<Rightarrow>
          (let updated_item = \<lparr>name = name item, description = description item,
                               price = price item, quantity = quantity item,
                               item_id = iid, created_at = created_at existing_item,
                               updated_at = now\<rparr>
           in (st\<lparr>data_store := AList.update iid updated_item (data_store st)\<rparr>,
               Inr updated_item)))"

definition delete_item :: "store \<Rightarrow> int \<Rightarrow> store \<times> (error + unit)" where
  "delete_item st iid =
     (case map_of (data_store st) iid of
        None \<Rightarrow> (st, Inl (not_found iid))
      | Some _ \<Rightarrow> (st\<lparr>data_store := AList.delete iid (data_store st)\<rparr>, Inr ()))"

definition health_check :: "string" where
  "health_check = ''API-SUT is healthy and running!''"

definition root :: "string" where
  "root = ''Welcome to API-SUT! Visit /docs for Swagger documentation.''"

section \<open>Requests\<close>

text \<open>
  The routes the decorators declare. A body is checked against its model before the
  endpoint function is called, so a body the model rejects never reaches it. The path
  parameter is typed \<open>int\<close>.
\<close>

datatype request =
    GET_items
  | GET_item int
  | POST_items ItemCreate
  | PUT_item int ItemUpdate
  | DELETE_item int
  | GET_health
  | GET_root

datatype result = Items "Item list" | One Item | No_content | Message string

definition handle :: "store \<Rightarrow> datetime \<Rightarrow> request \<Rightarrow> store \<times> (error + result)" where
  "handle st now req =
     (case req of
        GET_items \<Rightarrow> (case get_all_items st of (st', xs) \<Rightarrow> (st', Inr (Items xs)))
      | GET_item iid \<Rightarrow> (case get_item_by_id st iid of (st', r) \<Rightarrow> (st', map_sum id One r))
      | POST_items item \<Rightarrow>
          (if validate_ItemBase item
           then (case create_item st now item of (st', it) \<Rightarrow> (st', Inr (One it)))
           else (st, Inl RequestValidationError))
      | PUT_item iid item \<Rightarrow>
          (if validate_ItemBase item
           then (case update_item st now iid item of (st', r) \<Rightarrow> (st', map_sum id One r))
           else (st, Inl RequestValidationError))
      | DELETE_item iid \<Rightarrow>
          (case delete_item st iid of (st', r) \<Rightarrow> (st', map_sum id (\<lambda>_. No_content) r))
      | GET_health \<Rightarrow> (st, Inr (Message health_check))
      | GET_root \<Rightarrow> (st, Inr (Message root)))"

text \<open>
  The status of a response: the \<open>status_code\<close> of the route's decorator on success, the
  exception's own code for an \<open>HTTPException\<close>, 422 for a rejected body.
\<close>

fun status_code :: "request \<Rightarrow> error + result \<Rightarrow> nat" where
  "status_code req (Inl (HTTPException c d)) = c"
| "status_code req (Inl RequestValidationError) = 422"
| "status_code (POST_items item) (Inr r) = 201"
| "status_code (DELETE_item iid) (Inr r) = 204"
| "status_code req (Inr r) = 200"

text \<open>
  A run of the process: requests served one after the other, each with the clock reading
  its endpoint function gets. \<open>run\<close> gives the globals after the run, \<open>responses\<close> what
  each request was answered, \<open>issued\<close> the ids that \<open>create_item\<close> returned, in order.
\<close>

fun run :: "store \<Rightarrow> (datetime \<times> request) list \<Rightarrow> store" where
  "run st [] = st"
| "run st ((now, req) # evs) = run (fst (handle st now req)) evs"

fun responses :: "store \<Rightarrow> (datetime \<times> request) list \<Rightarrow> (error + result) list" where
  "responses st [] = []"
| "responses st ((now, req) # evs) =
     snd (handle st now req) # responses (fst (handle st now req)) evs"

fun issued :: "store \<Rightarrow> (datetime \<times> request) list \<Rightarrow> int list" where
  "issued st [] = []"
| "issued st ((now, req) # evs) =
     (case (req, snd (handle st now req)) of
        (POST_items item, Inr (One it)) \<Rightarrow> [item_id it]
      | _ \<Rightarrow> [])
     @ issued (fst (handle st now req)) evs"

section \<open>Predicates on the globals\<close>

text \<open>Every key of the dict is below the counter.\<close>

definition ids_below :: "store \<Rightarrow> bool" where
  "ids_below st \<longleftrightarrow> list_all (\<lambda>(k, it). k < next_id st) (data_store st)"

text \<open>Every item is stored under its own id, and no key occurs twice.\<close>

definition keyed_by_id :: "store \<Rightarrow> bool" where
  "keyed_by_id st \<longleftrightarrow>
     list_all (\<lambda>(k, it). item_id it = k) (data_store st) \<and> distinct (map fst (data_store st))"

text \<open>No item was updated before it was created.\<close>

definition stamps_ordered :: "store \<Rightarrow> bool" where
  "stamps_ordered st \<longleftrightarrow> list_all (\<lambda>(k, it). created_at it \<le> updated_at it) (data_store st)"

text \<open>No item was updated before it was created, nor stamped later than \<open>t\<close>.\<close>

definition stamps_upto :: "datetime \<Rightarrow> store \<Rightarrow> bool" where
  "stamps_upto t st \<longleftrightarrow>
     list_all (\<lambda>(k, it). created_at it \<le> updated_at it \<and> updated_at it \<le> t) (data_store st)"

section \<open>Basic facts\<close>

lemmas endpoint_defs =
  handle_def get_all_items_def get_item_by_id_def create_item_def update_item_def delete_item_def

lemmas init_defs = initialize_demo_data_def demo_items_def Let_def

lemma in_set_updateD:
  "(a, b) \<in> set (AList.update k v al) \<Longrightarrow> (a = k \<and> b = v) \<or> (a, b) \<in> set al"
  by (induction al) (auto split: if_splits)

lemma in_set_deleteD: "(a, b) \<in> set (AList.delete k al) \<Longrightarrow> (a, b) \<in> set al \<and> a \<noteq> k"
  by (auto simp: AList.delete_eq)

lemma handle_next_id_mono: "next_id st \<le> next_id (fst (handle st now req))"
  by (auto simp: endpoint_defs Let_def split: request.splits option.splits)

lemma handle_ids_below: "ids_below st \<Longrightarrow> ids_below (fst (handle st now req))"
  unfolding ids_below_def list_all_iff
  by (cases req)
     (auto simp: endpoint_defs Let_def split: option.splits
           dest!: in_set_updateD in_set_deleteD map_of_SomeD)

lemma handle_keyed: "keyed_by_id st \<Longrightarrow> keyed_by_id (fst (handle st now req))"
  unfolding keyed_by_id_def list_all_iff
  by (cases req)
     (auto simp: endpoint_defs Let_def AList.distinct_update AList.distinct_delete
           split: option.splits dest!: in_set_updateD in_set_deleteD)

lemma init_keys: "map fst (data_store (initialize_demo_data clock)) = [1, 2, 3, 4, 5]"
  by (simp add: init_defs)

lemma init_next_id: "next_id (initialize_demo_data clock) = 6"
  by (simp add: init_defs)

lemma init_ids_below: "ids_below (initialize_demo_data clock)"
  by (simp add: ids_below_def init_defs)

lemma init_keyed: "keyed_by_id (initialize_demo_data clock)"
  by (simp add: keyed_by_id_def init_defs)

lemma run_ids_below: "ids_below st \<Longrightarrow> ids_below (run st evs)"
  by (induction st evs rule: run.induct) (auto intro: handle_ids_below)

lemma run_keyed: "keyed_by_id st \<Longrightarrow> keyed_by_id (run st evs)"
  by (induction st evs rule: run.induct) (auto intro: handle_keyed)

lemma run_next_id_mono: "next_id st \<le> next_id (run st evs)"
proof (induction st evs rule: run.induct)
  case (2 st now req evs)
  have "next_id st \<le> next_id (fst (handle st now req))"
    by (rule handle_next_id_mono)
  with 2 show ?case by simp
qed simp

lemma ids_below_absent:
  "ids_below st \<Longrightarrow> next_id st \<le> k \<Longrightarrow> map_of (data_store st) k = None"
  unfolding ids_below_def list_all_iff
  by (cases "map_of (data_store st) k") (auto dest!: map_of_SomeD)

lemma issued_step:
  "issued st ((now, req) # evs) =
     (case req of
        POST_items item \<Rightarrow> if validate_ItemBase item then [next_id st] else []
      | _ \<Rightarrow> [])
     @ issued (fst (handle st now req)) evs"
  by (cases req) (auto simp: endpoint_defs Let_def split: option.splits)

lemma handle_POST_next_id:
  "validate_ItemBase item \<Longrightarrow> next_id (fst (handle st now (POST_items item))) = next_id st + 1"
  by (simp add: endpoint_defs Let_def)

lemma issued_from:
  "sorted_wrt (<) (issued st evs) \<and> (\<forall>i \<in> set (issued st evs). next_id st \<le> i)"
proof (induction st evs rule: issued.induct)
  case (1 st)
  show ?case by simp
next
  case (2 st now req evs)
  let ?st' = "fst (handle st now req)"
  have mono: "next_id st \<le> next_id ?st'"
    by (rule handle_next_id_mono)
  show ?case
  proof (cases "\<exists>item. req = POST_items item \<and> validate_ItemBase item")
    case True
    then obtain item where req: "req = POST_items item" and ok: "validate_ItemBase item"
      by blast
    have "next_id ?st' = next_id st + 1"
      unfolding req using ok by (rule handle_POST_next_id)
    moreover have "issued st ((now, req) # evs) = next_id st # issued ?st' evs"
      unfolding issued_step using req ok by simp
    ultimately show ?thesis using 2 by auto
  next
    case False
    then have "issued st ((now, req) # evs) = issued ?st' evs"
      unfolding issued_step by (cases req) auto
    then show ?thesis using 2 mono by auto
  qed
qed

section \<open>Identifiers\<close>

text \<open>
  C1. The ids of the demo items, followed by every id that create returns in a run of the
  process, in the order they are returned, form a strictly increasing list, whatever the
  requests are (deletions among them): each id is greater than every id issued before it,
  and none is issued twice.
\<close>

theorem ids_strictly_increasing:
  "sorted_wrt (<) (map fst (data_store (initialize_demo_data clock))
                   @ issued (initialize_demo_data clock) evs)"
  using issued_from[of "initialize_demo_data clock" evs]
  by (auto simp: sorted_wrt_append init_keys init_next_id)

text \<open>
  A run that creates item 6, deletes it and creates again: the second create returns 7.
\<close>

theorem ids_strictly_increasing_witness:
  "sorted_wrt (<) (map fst (data_store (initialize_demo_data int))
     @ issued (initialize_demo_data int)
         [(10, POST_items \<lparr>name = ''Widget'', description = None,
                           price = Finite 10, quantity = 5\<rparr>),
          (11, DELETE_item 6),
          (12, POST_items \<lparr>name = ''Widget2'', description = None,
                           price = Finite 12, quantity = 3\<rparr>)])
   \<and> issued (initialize_demo_data int)
         [(10, POST_items \<lparr>name = ''Widget'', description = None,
                           price = Finite 10, quantity = 5\<rparr>),
          (11, DELETE_item 6),
          (12, POST_items \<lparr>name = ''Widget2'', description = None,
                           price = Finite 12, quantity = 3\<rparr>)] = [6, 7]"
  using ids_strictly_increasing[of int
         "[(10, POST_items \<lparr>name = ''Widget'', description = None,
                            price = Finite 10, quantity = 5\<rparr>),
           (11, DELETE_item 6),
           (12, POST_items \<lparr>name = ''Widget2'', description = None,
                            price = Finite 12, quantity = 3\<rparr>)]"]
  by (simp add: init_defs endpoint_defs validate_ItemBase_def)

section \<open>Create and read back\<close>

text \<open>
  C2. For every body the schema accepts, in any state of the store, POST /items answers
  201 with an item, GET /items/{id} for the id of that item answers the same item, the
  item has the name, description, price and quantity of the body, and its created_at
  equals its updated_at.
\<close>

theorem create_then_get:
  assumes "validate_ItemBase item"
  shows "\<exists>st' it. handle st now (POST_items item) = (st', Inr (One it))
           \<and> status_code (POST_items item) (snd (handle st now (POST_items item))) = 201
           \<and> handle st' now' (GET_item (item_id it)) = (st', Inr (One it))
           \<and> get_item_by_id st' (item_id it) = (st', Inr it)
           \<and> name it = name item \<and> description it = description item
           \<and> price it = price item \<and> quantity it = quantity item
           \<and> created_at it = updated_at it"
  using assms by (simp add: endpoint_defs Let_def AList.update_conv')

theorem create_then_get_witness:
  "validate_ItemBase \<lparr>name = ''Widget'', description = None, price = Finite 10, quantity = 5\<rparr>
   \<and> handle (initialize_demo_data int) 10
        (POST_items \<lparr>name = ''Widget'', description = None, price = Finite 10, quantity = 5\<rparr>)
     = (fst (create_item (initialize_demo_data int) 10
           \<lparr>name = ''Widget'', description = None, price = Finite 10, quantity = 5\<rparr>),
        Inr (One \<lparr>name = ''Widget'', description = None, price = Finite 10, quantity = 5,
                  item_id = 6, created_at = 10, updated_at = 10\<rparr>))
   \<and> snd (get_item_by_id (fst (create_item (initialize_demo_data int) 10
           \<lparr>name = ''Widget'', description = None, price = Finite 10, quantity = 5\<rparr>)) 6)
     = Inr \<lparr>name = ''Widget'', description = None, price = Finite 10, quantity = 5,
            item_id = 6, created_at = 10, updated_at = 10\<rparr>"
  using create_then_get[of "\<lparr>name = ''Widget'', description = None, price = Finite 10, quantity = 5\<rparr>"
      "initialize_demo_data int" 10 11]
  by (simp add: init_defs endpoint_defs validate_ItemBase_def)

section \<open>Start-up state\<close>

text \<open>
  C9. After the module is loaded and before any request, the store holds the five demo
  items under the keys 1 to 5, in that order, each with its own key as id and with
  created_at equal to updated_at (the clock reading of its round of the loop); the
  counter is 6, and the first item created gets id 6.
\<close>

theorem demo_data_loaded:
  "map fst (data_store (initialize_demo_data clock)) = [1, 2, 3, 4, 5]
   \<and> map (\<lambda>(k, it). item_id it) (data_store (initialize_demo_data clock)) = [1, 2, 3, 4, 5]
   \<and> map (\<lambda>(k, it). \<lparr>name = name it, description = description it,
                        price = price it, quantity = quantity it\<rparr>)
        (data_store (initialize_demo_data clock)) = demo_items
   \<and> map (\<lambda>(k, it). (created_at it, updated_at it)) (data_store (initialize_demo_data clock))
       = [(clock 0, clock 0), (clock 1, clock 1), (clock 2, clock 2),
          (clock 3, clock 3), (clock 4, clock 4)]
   \<and> next_id (initialize_demo_data clock) = 6
   \<and> item_id (snd (create_item (initialize_demo_data clock) now item)) = 6
   \<and> snd (handle (initialize_demo_data clock) now (POST_items item))
       = (if validate_ItemBase item
          then Inr (One \<lparr>name = name item, description = description item,
                         price = price item, quantity = quantity item,
                         item_id = 6, created_at = now, updated_at = now\<rparr>)
          else Inl RequestValidationError)"
  by (simp add: init_defs endpoint_defs eval_nat_numeral)

theorem demo_data_loaded_witness:
  "length (data_store (initialize_demo_data int)) = 5
   \<and> map_of (data_store (initialize_demo_data int)) 5
       = Some \<lparr>name = ''Webcam HD'',
               description = Some ''1080p HD webcam with built-in microphone'',
               price = Finite (8999 / 100), quantity = 120,
               item_id = 5, created_at = 4, updated_at = 4\<rparr>
   \<and> snd (handle (initialize_demo_data int) 10
          (POST_items \<lparr>name = ''Widget'', description = None, price = Finite 10, quantity = 5\<rparr>))
       = Inr (One \<lparr>name = ''Widget'', description = None, price = Finite 10, quantity = 5,
                    item_id = 6, created_at = 10, updated_at = 10\<rparr>)"
  using demo_data_loaded[of int 10
          "\<lparr>name = ''Widget'', description = None, price = Finite 10, quantity = 5\<rparr>"]
  by (simp add: init_defs validate_ItemBase_def)

section \<open>Not found\<close>

text \<open>
  C4. \<open>get_item_by_id\<close> returns an item exactly when that item is stored under the id,
  and raises exactly when the id is not a key of the store; \<open>update_item\<close> and
  \<open>delete_item\<close> raise exactly when the id is not a key. The exception is always
  \<open>HTTPException\<close> with status 404 and detail "Item with id {id} not found" for the id
  asked for, and the response has status 404.
\<close>

theorem not_found_exactly_when_absent:
  "(snd (get_item_by_id st iid) = Inr it \<longleftrightarrow> map_of (data_store st) iid = Some it)
   \<and> (snd (get_item_by_id st iid) = Inl e
       \<longleftrightarrow> map_of (data_store st) iid = None
           \<and> e = HTTPException 404 (''Item with id '' @ str_int iid @ '' not found''))
   \<and> (snd (update_item st now iid item) = Inl e
       \<longleftrightarrow> map_of (data_store st) iid = None
           \<and> e = HTTPException 404 (''Item with id '' @ str_int iid @ '' not found''))
   \<and> (snd (delete_item st iid) = Inl e
       \<longleftrightarrow> map_of (data_store st) iid = None
           \<and> e = HTTPException 404 (''Item with id '' @ str_int iid @ '' not found''))
   \<and> (map_of (data_store st) iid = None \<longrightarrow>
        status_code (GET_item iid) (snd (handle st now (GET_item iid))) = 404
        \<and> status_code (DELETE_item iid) (snd (handle st now (DELETE_item iid))) = 404
        \<and> (validate_ItemBase item \<longrightarrow>
             status_code (PUT_item iid item) (snd (handle st now (PUT_item iid item))) = 404))"
  by (auto simp: endpoint_defs not_found_def HTTP_404_NOT_FOUND_def Let_def split: option.splits)

theorem not_found_exactly_when_absent_witness:
  "snd (get_item_by_id (initialize_demo_data int) 999)
     = Inl (HTTPException 404 ''Item with id 999 not found'')
   \<and> map_of (data_store (initialize_demo_data int)) 999 = None
   \<and> snd (delete_item (initialize_demo_data int) (- 1))
     = Inl (HTTPException 404 ''Item with id -1 not found'')
   \<and> snd (get_item_by_id (initialize_demo_data int) 3) =
       Inr \<lparr>name = ''USB-C Hub'',
            description = Some ''7-in-1 USB-C hub with HDMI, USB 3.0, and SD card reader'',
            price = Finite (4999 / 100), quantity = 200, item_id = 3,
            created_at = 2, updated_at = 2\<rparr>"
  using not_found_exactly_when_absent[of "initialize_demo_data int" 999 _
           "HTTPException 404 ''Item with id 999 not found''"]
        not_found_exactly_when_absent[of "initialize_demo_data int" "- 1" _
           "HTTPException 404 ''Item with id -1 not found''"]
        not_found_exactly_when_absent[of "initialize_demo_data int" 3
           "\<lparr>name = ''USB-C Hub'',
            description = Some ''7-in-1 USB-C hub with HDMI, USB 3.0, and SD card reader'',
            price = Finite (4999 / 100), quantity = 200, item_id = 3,
            created_at = 2, updated_at = 2\<rparr>"]
  by (simp add: init_defs str_int_def digit_char_def)

text \<open>
  C10. When \<open>get_item_by_id\<close>, \<open>update_item\<close> or \<open>delete_item\<close> raises, the dict and
  the counter are what they were before the call; that is the case whenever the id is not
  a key of the store.
\<close>

theorem not_found_is_atomic:
  "(snd (get_item_by_id st iid) = Inl e \<longrightarrow> fst (get_item_by_id st iid) = st)
   \<and> (snd (update_item st now iid item) = Inl e \<longrightarrow> fst (update_item st now iid item) = st)
   \<and> (snd (delete_item st iid) = Inl e \<longrightarrow> fst (delete_item st iid) = st)
   \<and> (map_of (data_store st) iid = None \<longrightarrow>
        get_item_by_id st iid = (st, Inl (not_found iid))
        \<and> update_item st now iid item = (st, Inl (not_found iid))
        \<and> delete_item st iid = (st, Inl (not_found iid))
        \<and> fst (handle st now (GET_item iid)) = st
        \<and> fst (handle st now (PUT_item iid item)) = st
        \<and> fst (handle st now (DELETE_item iid)) = st)"
  by (auto simp: endpoint_defs Let_def split: option.splits)

theorem not_found_is_atomic_witness:
  "map_of (data_store (initialize_demo_data int)) 999 = None
   \<and> update_item (initialize_demo_data int) 7 999
        \<lparr>name = ''Widget'', description = None, price = Finite 10, quantity = 5\<rparr>
       = (initialize_demo_data int, Inl (HTTPException 404 ''Item with id 999 not found''))
   \<and> fst (handle (initialize_demo_data int) 7 (DELETE_item 999)) = initialize_demo_data int"
  using not_found_is_atomic[of "initialize_demo_data int" 999 _ 7
        "\<lparr>name = ''Widget'', description = None, price = Finite 10, quantity = 5\<rparr>"]
  by (simp add: init_defs not_found_def HTTP_404_NOT_FOUND_def str_int_def digit_char_def)

section \<open>Validation\<close>

text \<open>
  C6. A body of POST /items or PUT /items/{id} whose name is empty or longer than 100
  characters, whose description is present and longer than 500 characters, whose price
  is at most 0 or whose quantity is negative is rejected with a validation error, and the
  store is left as it was. A body that meets all four constraints reaches the endpoint
  function and is not rejected by validation. A body is rejected exactly when the schema
  does not hold of it (a NaN price among them).
\<close>

theorem validation:
  "(length (name item) = 0 \<or> 100 < length (name item)
     \<or> (\<exists>d. description item = Some d \<and> 500 < length d)
     \<or> float_le (price item) 0 \<or> quantity item < 0
    \<longrightarrow> handle st now (POST_items item) = (st, Inl RequestValidationError)
        \<and> handle st now (PUT_item iid item) = (st, Inl RequestValidationError))
   \<and> (1 \<le> length (name item) \<and> length (name item) \<le> 100
       \<and> (\<forall>d. description item = Some d \<longrightarrow> length d \<le> 500)
       \<and> float_gt (price item) 0 \<and> 0 \<le> quantity item
    \<longrightarrow> handle st now (POST_items item) = (case create_item st now item of (st', it) \<Rightarrow> (st', Inr (One it)))
        \<and> handle st now (PUT_item iid item)
             = (case update_item st now iid item of (st', r) \<Rightarrow> (st', map_sum id One r))
        \<and> snd (handle st now (POST_items item)) \<noteq> Inl RequestValidationError
        \<and> snd (handle st now (PUT_item iid item)) \<noteq> Inl RequestValidationError)
   \<and> (handle st now (POST_items item) = (st, Inl RequestValidationError)
        \<longleftrightarrow> \<not> validate_ItemBase item)
   \<and> (handle st now (PUT_item iid item) = (st, Inl RequestValidationError)
        \<longleftrightarrow> \<not> validate_ItemBase item)"
  by (cases "price item")
     (auto simp: endpoint_defs validate_ItemBase_def Let_def not_found_def split: option.splits)

theorem validation_witness:
  "handle (initialize_demo_data int) 7
      (POST_items \<lparr>name = ''Widget'', description = None, price = Finite 0, quantity = 5\<rparr>)
     = (initialize_demo_data int, Inl RequestValidationError)
   \<and> handle (initialize_demo_data int) 7
      (PUT_item 1 \<lparr>name = ''Widget'', description = None, price = NaN, quantity = 5\<rparr>)
     = (initialize_demo_data int, Inl RequestValidationError)
   \<and> handle (initialize_demo_data int) 7
      (PUT_item 1 \<lparr>name = ''Widget'', description = None, price = Finite 10, quantity = - 1\<rparr>)
     = (initialize_demo_data int, Inl RequestValidationError)
   \<and> handle (initialize_demo_data int) 7
      (POST_items \<lparr>name = [], description = None, price = Finite 10, quantity = 5\<rparr>)
     = (initialize_demo_data int, Inl RequestValidationError)
   \<and> snd (handle (initialize_demo_data int) 7
      (POST_items \<lparr>name = ''Widget'', description = None, price = Finite 10, quantity = 0\<rparr>))
     = Inr (One \<lparr>name = ''Widget'', description = None, price = Finite 10, quantity = 0,
                  item_id = 6, created_at = 7, updated_at = 7\<rparr>)"
  using validation[of "\<lparr>name = ''Widget'', description = None, price = Finite 0, quantity = 5\<rparr>"
                      "initialize_demo_data int" 7 1]
        validation[of "\<lparr>name = ''Widget'', description = None, price = NaN, quantity = 5\<rparr>"
                      "initialize_demo_data int" 7 1]
        validation[of "\<lparr>name = ''Widget'', description = None, price = Finite 10, quantity = - 1\<rparr>"
                      "initialize_demo_data int" 7 1]
        validation[of "\<lparr>name = [], description = None, price = Finite 10, quantity = 5\<rparr>"
                      "initialize_demo_data int" 7 1]
        validation[of "\<lparr>name = ''Widget'', description = None, price = Finite 10, quantity = 0\<rparr>"
                      "initialize_demo_data int" 7 1]
  by (simp add: init_defs create_item_def validate_ItemBase_def)

section \<open>Keys and ids\<close>

lemma keyed_lookup:
  "keyed_by_id st \<Longrightarrow> map_of (data_store st) k = Some it \<Longrightarrow> item_id it = k"
  unfolding keyed_by_id_def list_all_iff by (auto dest!: map_of_SomeD)

lemma keyed_ids_distinct:
  assumes "keyed_by_id st"
  shows "distinct (map item_id (snd (get_all_items st)))"
proof -
  have eq: "map (item_id \<circ> snd) (data_store st) = map fst (data_store st)"
    using assms unfolding keyed_by_id_def list_all_iff by (intro map_cong) auto
  have "distinct (map fst (data_store st))"
    using assms unfolding keyed_by_id_def by blast
  then show ?thesis
    unfolding get_all_items_def snd_conv map_map eq .
qed

text \<open>
  C8. After start-up and after every run of requests, every item is stored under its own
  id and no two items of the store have the same id. The property holds of the start-up
  state and every request preserves it, in any state where it holds.
\<close>

theorem store_keyed_by_id:
  "keyed_by_id (initialize_demo_data clock)
   \<and> (keyed_by_id st \<longrightarrow> keyed_by_id (fst (handle st now req)))
   \<and> keyed_by_id (run (initialize_demo_data clock) evs)
   \<and> (\<forall>k it. map_of (data_store (run (initialize_demo_data clock) evs)) k = Some it
          \<longrightarrow> item_id it = k)
   \<and> distinct (map item_id (snd (get_all_items (run (initialize_demo_data clock) evs))))"
proof -
  let ?st = "run (initialize_demo_data clock) evs"
  have k: "keyed_by_id ?st"
    by (rule run_keyed) (rule init_keyed)
  have own: "\<forall>k it. map_of (data_store ?st) k = Some it \<longrightarrow> item_id it = k"
    using k by (blast dest: keyed_lookup)
  have "distinct (map item_id (snd (get_all_items ?st)))"
    using k by (rule keyed_ids_distinct)
  with k own show ?thesis
    using init_keyed handle_keyed by blast
qed

theorem store_keyed_by_id_witness:
  "keyed_by_id (initialize_demo_data int)
   \<and> keyed_by_id (fst (handle (initialize_demo_data int) 9
        (PUT_item 2 \<lparr>name = ''Widget2'', description = None, price = Finite 12, quantity = 3\<rparr>)))
   \<and> map fst (data_store (run (initialize_demo_data int)
        [(10, POST_items \<lparr>name = ''Widget'', description = None,
                          price = Finite 10, quantity = 5\<rparr>),
         (11, DELETE_item 2)])) = [1, 3, 4, 5, 6]
   \<and> distinct (map item_id (snd (get_all_items (run (initialize_demo_data int)
        [(10, POST_items \<lparr>name = ''Widget'', description = None,
                          price = Finite 10, quantity = 5\<rparr>),
         (11, DELETE_item 2)]))))"
  using store_keyed_by_id[of int "initialize_demo_data int" 9
          "PUT_item 2 \<lparr>name = ''Widget2'', description = None, price = Finite 12, quantity = 3\<rparr>"
          "[(10, POST_items \<lparr>name = ''Widget'', description = None,
                            price = Finite 10, quantity = 5\<rparr>),
            (11, DELETE_item 2)]"]
  by (simp add: init_defs endpoint_defs validate_ItemBase_def)

section \<open>Delete\<close>

lemma ids_below_present:
  "ids_below st \<Longrightarrow> map_of (data_store st) k = Some it \<Longrightarrow> k < next_id st"
  unfolding ids_below_def list_all_iff by (auto dest!: map_of_SomeD)

lemma handle_absent:
  "map_of (data_store st) iid = None \<Longrightarrow> iid < next_id st
   \<Longrightarrow> map_of (data_store (fst (handle st now req))) iid = None"
  by (cases req)
     (auto simp: endpoint_defs Let_def AList.update_conv' AList.delete_conv' split: option.splits)

lemma run_absent:
  "map_of (data_store st) iid = None \<Longrightarrow> iid < next_id st
   \<Longrightarrow> map_of (data_store (run st evs)) iid = None"
proof (induction st evs rule: run.induct)
  case (1 st)
  then show ?case by simp
next
  case (2 st now req evs)
  let ?st' = "fst (handle st now req)"
  have "map_of (data_store ?st') iid = None"
    using 2(2,3) by (rule handle_absent)
  moreover have "iid < next_id ?st'"
    using 2(3) handle_next_id_mono[of st now req] by linarith
  ultimately show ?case using 2(1) by simp
qed

text \<open>
  C5. In every state the process can reach, DELETE of an id that is a key of the store
  answers 204 with no content and removes the key; after that, whatever requests are
  served in between, get, update and delete of that id raise the not-found error.
\<close>

theorem delete_then_not_found:
  assumes st: "st = run (initialize_demo_data clock) evs"
    and present: "map_of (data_store st) iid = Some it"
  shows "\<exists>st'. handle st now (DELETE_item iid) = (st', Inr No_content)
           \<and> delete_item st iid = (st', Inr ())
           \<and> status_code (DELETE_item iid) (snd (handle st now (DELETE_item iid))) = 204
           \<and> map_of (data_store st') iid = None
           \<and> (\<forall>evs' now' item.
                 snd (get_item_by_id (run st' evs') iid) = Inl (not_found iid)
               \<and> snd (update_item (run st' evs') now' iid item) = Inl (not_found iid)
               \<and> snd (delete_item (run st' evs') iid) = Inl (not_found iid))"
proof -
  let ?st' = "st\<lparr>data_store := AList.delete iid (data_store st)\<rparr>"
  have "ids_below st"
    unfolding st by (rule run_ids_below) (rule init_ids_below)
  then have below: "iid < next_id ?st'"
    using present by (auto dest: ids_below_present)
  have gone: "map_of (data_store ?st') iid = None"
    by (simp add: AList.delete_conv')
  have later: "map_of (data_store (run ?st' evs')) iid = None" for evs'
    using gone below by (rule run_absent)
  have del: "delete_item st iid = (?st', Inr ())"
    using present by (simp add: delete_item_def)
  then have h: "handle st now (DELETE_item iid) = (?st', Inr No_content)"
    by (simp add: handle_def)
  have "snd (get_item_by_id (run ?st' evs') iid) = Inl (not_found iid)
        \<and> snd (update_item (run ?st' evs') now' iid item) = Inl (not_found iid)
        \<and> snd (delete_item (run ?st' evs') iid) = Inl (not_found iid)" for evs' now' item
    using later[of evs'] by (simp add: endpoint_defs)
  with del h gone show ?thesis by simp
qed

theorem delete_then_not_found_witness:
  "map_of (data_store (run (initialize_demo_data int) [])) 3
     = Some \<lparr>name = ''USB-C Hub'',
             description = Some ''7-in-1 USB-C hub with HDMI, USB 3.0, and SD card reader'',
             price = Finite (4999 / 100), quantity = 200, item_id = 3,
             created_at = 2, updated_at = 2\<rparr>
   \<and> snd (handle (run (initialize_demo_data int) []) 11 (DELETE_item 3)) = Inr No_content
   \<and> snd (get_item_by_id
        (run (fst (delete_item (run (initialize_demo_data int) []) 3))
           [(12, POST_items \<lparr>name = ''Widget'', description = None,
                             price = Finite 10, quantity = 5\<rparr>)]) 3)
       = Inl (HTTPException 404 ''Item with id 3 not found'')"
proof -
  have p: "map_of (data_store (run (initialize_demo_data int) [])) 3
     = Some \<lparr>name = ''USB-C Hub'',
             description = Some ''7-in-1 USB-C hub with HDMI, USB 3.0, and SD card reader'',
             price = Finite (4999 / 100), quantity = 200, item_id = 3,
             created_at = 2, updated_at = 2\<rparr>"
    by (simp add: init_defs)
  have nf: "not_found 3 = HTTPException 404 ''Item with id 3 not found''"
    by (simp add: not_found_def HTTP_404_NOT_FOUND_def str_int_def digit_char_def)
  from delete_then_not_found[OF refl p, of 11]
  obtain st' where h: "handle (run (initialize_demo_data int) []) 11 (DELETE_item 3)
                        = (st', Inr No_content)"
    and d: "delete_item (run (initialize_demo_data int) []) 3 = (st', Inr ())"
    and later: "\<And>evs'. snd (get_item_by_id (run st' evs') 3) = Inl (not_found 3)"
    by blast
  show ?thesis
    using p h later[of "[(12, POST_items \<lparr>name = ''Widget'', description = None,
                             price = Finite 10, quantity = 5\<rparr>)]"]
    unfolding d fst_conv nf by simp
qed

end
